theory Spec2Isabelle
  imports Complex_Main
begin

section \<open>The leaking bucket of \<open>bucket_sim.ipynb\<close>\<close>

text \<open>
  The notebook's code cell defines the constant \<open>GRAV\<close>, the dataclasses \<open>Bucket\<close> and
  \<open>BucketSystem\<close> (with the method \<open>ode\<close>) and the driver \<open>run_simulation\<close>, which hands
  \<open>ode\<close> to SciPy's \<open>solve_ivp\<close>.

  Numbers: Python's \<open>float\<close> is read as a real number, so \<open>+\<close>, \<open>-\<close>, \<open>*\<close>, \<open>/\<close> and
  \<open>sqrt\<close> are the exact operations and rounding, infinities and NaN are outside the
  model. What Python raises is kept: \<open>math.sqrt\<close> of a negative number and a division
  by zero are values of the error type.
\<close>

subsection \<open>Errors\<close>

text \<open>
  \<open>ValueError\<close> is what \<open>math.sqrt\<close> raises on a negative argument (``math domain
  error''), the specification's \<open>DomainError\<close>. \<open>ZeroDivisionError\<close> is raised by
  \<open>/\<close>, \<open>IndexError\<close> by \<open>h[0]\<close> on an empty state vector, \<open>TypeError\<close> by a call
  with arguments the function does not declare. \<open>ConfigurationError\<close> is the
  specification's name for a rejected configuration; no statement of the source raises it.
\<close>

datatype py_error =
    ValueError
  | ZeroDivisionError
  | IndexError
  | TypeError
  | ConfigurationError

type_synonym pyfloat = real

definition py_sqrt :: "pyfloat \<Rightarrow> py_error + pyfloat" where
  "py_sqrt x = (if x < 0 then Inl ValueError else Inr (sqrt x))"

definition py_truediv :: "pyfloat \<Rightarrow> pyfloat \<Rightarrow> py_error + pyfloat" where
  "py_truediv x y = (if y = 0 then Inl ZeroDivisionError else Inr (x / y))"

subsection \<open>The plant model\<close>

text \<open>\<^verbatim>\<open>GRAV : float = 9.8\<close>\<close>

definition GRAV :: pyfloat where
  "GRAV = 98 / 10"

text \<open>
  \<^verbatim>\<open>
  @dataclass
  class Bucket:
      A: float
  \<close>
  The generated constructor stores its argument; the class has no \<open>__post_init__\<close>.
\<close>

record Bucket =
  A :: pyfloat

definition Bucket_init :: "pyfloat \<Rightarrow> py_error + Bucket" where
  "Bucket_init a = Inr \<lparr>A = a\<rparr>"

text \<open>
  \<^verbatim>\<open>
  @dataclass
  class BucketSystem:
      backet: Bucket
      flow_in: Callable[[float], float]

      def ode(self, t:float, h:float) -> float:
          return (self.flow_in(t) - sqrt(2 * GRAV * h)) / self.backet.A
  \<close>
  Python evaluates the numerator first: \<open>flow_in(t)\<close>, then the square root, which
  raises before the division is reached.
\<close>

record BucketSystem =
  backet :: Bucket
  flow_in :: "pyfloat \<Rightarrow> pyfloat"

definition ode :: "'a BucketSystem_scheme \<Rightarrow> pyfloat \<Rightarrow> pyfloat \<Rightarrow> py_error + pyfloat" where
  "ode self t h =
     (let q_in = flow_in self t in
      case py_sqrt (2 * GRAV * h) of
        Inl e \<Rightarrow> Inl e
      | Inr q_out \<Rightarrow> py_truediv (q_in - q_out) (A (backet self)))"

subsection \<open>The reference equations of the specification\<close>

text \<open>
  Torricelli's law \<open>Q_out(t) = sqrt(2 * g * h(t))\<close> with \<open>g = 9.8\<close>, and the balance
  \<open>dh/dt = (Q_in(t) - Q_out(t)) / A\<close>, written from the specification's words.
\<close>

definition g_ref :: real where
  "g_ref = 9.8"

definition Q_out_ref :: "real \<Rightarrow> real" where
  "Q_out_ref h = sqrt (2 * g_ref * h)"

definition dhdt_ref :: "(real \<Rightarrow> real) \<Rightarrow> real \<Rightarrow> real \<Rightarrow> real \<Rightarrow> real" where
  "dhdt_ref Q_in area t h = (Q_in t - Q_out_ref h) / area"

subsection \<open>The equilibrium level of the specification\<close>

text \<open>
  For a constant inflow \<open>q0\<close> the specification names the level
  \<open>h_eq = q0\<^sup>2 / (2g)\<close>; the source does not compute it.
\<close>

definition h_eq :: "real \<Rightarrow> real" where
  "h_eq q0 = q0\<^sup>2 / (2 * g_ref)"

subsection \<open>The simulation driver\<close>

text \<open>
  SciPy's \<open>OdeResult\<close>, with the attributes the notebook's output shows. The attributes
  \<open>t\<close> and \<open>y\<close> are the fields \<open>res_t\<close> and \<open>res_y\<close>; \<open>sol\<close>, \<open>t_events\<close> and
  \<open>y_events\<close> are \<open>None\<close> in this use and left out.
\<close>

record OdeResult =
  message :: string
  success :: bool
  status :: int
  res_t :: "pyfloat list"
  res_y :: "pyfloat list list"
  nfev :: nat
  njev :: nat
  nlu :: nat

text \<open>
  \<open>solve_ivp\<close> is imported, not defined in the repository: the driver takes it as a
  parameter. It receives the derivative function \<open>fun\<close>, \<open>t_span\<close>, \<open>y0\<close> and
  \<open>max_step\<close>, and either returns an \<open>OdeResult\<close> or raises.
\<close>

type_synonym rhs_fun = "pyfloat \<Rightarrow> pyfloat list \<Rightarrow> py_error + pyfloat"

type_synonym ivp_solver =
  "rhs_fun \<Rightarrow> pyfloat \<times> pyfloat \<Rightarrow> pyfloat list \<Rightarrow> pyfloat \<Rightarrow> py_error + OdeResult"

text \<open>
  \<^verbatim>\<open>
  def run_simulation() -> OdeResult:
      backet = Bucket(A=5.0)
      system = BucketSystem(backet=backet, flow_in=lambda t: 10.0)
      h0 = 0.0
      t_span = (0, 20)
      sol = solve_ivp(
          fun=lambda t, h: system.ode(t, h[0]),
          t_span=t_span,
          y0=[h0],
          max_step=0.01
      )
      return sol
  \<close>
  There is no \<open>try\<close> around the call: what \<open>solve_ivp\<close> raises, \<open>run_simulation\<close>
  raises.
\<close>

definition run_simulation :: "ivp_solver \<Rightarrow> py_error + OdeResult" where
  "run_simulation solve_ivp =
     (case Bucket_init 5 of
        Inl e \<Rightarrow> Inl e
      | Inr backet' \<Rightarrow>
          (let system = \<lparr>backet = backet', flow_in = (\<lambda>t. 10)\<rparr>;
               h0 = 0;
               t_span = (0, 20);
               sol = solve_ivp
                       (\<lambda>t h. case h of [] \<Rightarrow> Inl IndexError | x # _ \<Rightarrow> ode system t x)
                       t_span [h0] (1 / 100)
           in sol))"

text \<open>
  A call of \<open>run_simulation\<close> as Python performs it: the function declares no
  parameter, so a call with any positional or keyword argument raises \<open>TypeError\<close>
  before the body runs.
\<close>

definition run_simulation_call ::
    "'v list \<Rightarrow> (string \<times> 'v) list \<Rightarrow> ivp_solver \<Rightarrow> py_error + OdeResult" where
  "run_simulation_call args kwargs solve_ivp =
     (if args = [] \<and> kwargs = [] then run_simulation solve_ivp else Inl TypeError)"

subsection \<open>Two collaborators to run the driver with\<close>

text \<open>
  \<open>solver_gives_up\<close> reports a failed integration the way \<open>solve_ivp\<close> does, as a
  result with \<open>success = False\<close> and \<open>status = -1\<close>. \<open>solver_probes_below_zero\<close>
  evaluates the derivative function at the start time and the level \<open>-1\<close> and, like
  any Python caller without a handler, lets what it raises pass.
\<close>

definition solver_gives_up :: ivp_solver where
  "solver_gives_up f t_span y0 max_step =
     Inr \<lparr>message = ''Required step size is less than spacing between numbers.'',
          success = False, status = - 1, res_t = [fst t_span], res_y = [y0],
          nfev = 0, njev = 0, nlu = 0\<rparr>"

definition solver_probes_below_zero :: ivp_solver where
  "solver_probes_below_zero f t_span y0 max_step =
     (case f (fst t_span) [- 1] of
        Inl e \<Rightarrow> Inl e
      | Inr d \<Rightarrow> Inr \<lparr>message = ''The solver successfully reached the end of the integration interval.'',
                     success = True, status = 0, res_t = [fst t_span], res_y = [y0],
                     nfev = 1, njev = 0, nlu = 0\<rparr>)"

section \<open>Properties of the derivative function\<close>

lemma GRAV_pos: "0 < GRAV"
  by (simp add: GRAV_def)

lemma ode_value:
  "0 \<le> h \<Longrightarrow> A (backet self) \<noteq> 0 \<Longrightarrow>
   ode self t h = Inr ((flow_in self t - sqrt (2 * GRAV * h)) / A (backet self))"
  using GRAV_pos by (simp add: ode_def py_sqrt_def py_truediv_def not_less)

lemma ode_zero_area:
  "0 \<le> h \<Longrightarrow> A (backet self) = 0 \<Longrightarrow> ode self t h = Inl ZeroDivisionError"
  using GRAV_pos by (simp add: ode_def py_sqrt_def py_truediv_def not_less)

text \<open>
  C1. For every time \<open>t\<close>, level \<open>h \<ge> 0\<close>, area \<open>A > 0\<close> and control input, \<open>ode(t, h)\<close>
  returns a value, and that value is the specification's \<open>dh/dt = (Q_in(t) - Q_out(t)) / A\<close>
  with \<open>Q_out = sqrt(2 * g * h)\<close> and \<open>g = 9.8\<close>; the source's \<open>GRAV\<close> is that \<open>g\<close>.
\<close>

theorem ode_refines_reference:
  assumes "0 \<le> h" and "0 < A (backet self)"
  shows "ode self t h = Inr (dhdt_ref (flow_in self) (A (backet self)) t h) \<and> GRAV = g_ref"
proof -
  have g: "GRAV = g_ref"
    by (simp add: GRAV_def g_ref_def)
  from assms have "ode self t h = Inr ((flow_in self t - sqrt (2 * GRAV * h)) / A (backet self))"
    by (simp add: ode_value)
  with g show ?thesis
    by (simp add: dhdt_ref_def Q_out_ref_def)
qed

theorem ode_refines_reference_witness:
  "(0::real) \<le> 10 / 49 \<and> 0 < A (backet \<lparr>backet = \<lparr>A = 5\<rparr>, flow_in = (\<lambda>t. 10)\<rparr>)
   \<and> ode \<lparr>backet = \<lparr>A = 5\<rparr>, flow_in = (\<lambda>t. 10)\<rparr> 3 (10 / 49)
       = Inr (dhdt_ref (\<lambda>t. 10) 5 3 (10 / 49))
   \<and> dhdt_ref (\<lambda>t. 10) 5 3 (10 / 49) = 8 / 5"
proof -
  have "dhdt_ref (\<lambda>t. 10) 5 3 (10 / 49) = 8 / 5"
    by (simp add: dhdt_ref_def Q_out_ref_def g_ref_def)
  then show ?thesis
    using ode_refines_reference [of "10 / 49" "\<lparr>backet = \<lparr>A = 5\<rparr>, flow_in = (\<lambda>t. 10)\<rparr>" 3]
    by simp
qed

text \<open>
  C3. For every level \<open>h < 0\<close>, every time and every system, \<open>ode(t, h)\<close> raises the
  domain error of \<open>math.sqrt\<close> and returns no value; the level is not clamped, so the
  result differs from the one at \<open>h = 0\<close>; and \<open>ode\<close> raises that error only when
  \<open>h < 0\<close>.
\<close>

theorem ode_negative_level:
  "(h < 0 \<longrightarrow> ode self t h = Inl ValueError \<and> (\<forall>v. ode self t h \<noteq> Inr v)
              \<and> ode self t h \<noteq> ode self t 0)
   \<and> (ode self t h = Inl ValueError \<longrightarrow> h < 0)"
proof -
  have neg: "ode self t h = Inl ValueError" if "h < 0"
    using that GRAV_pos by (simp add: ode_def py_sqrt_def mult_less_0_iff)
  have zero: "ode self t 0 \<noteq> Inl ValueError"
    by (simp add: ode_def py_sqrt_def py_truediv_def)
  have nonneg: "ode self t h \<noteq> Inl ValueError" if "\<not> h < 0"
    using that GRAV_pos by (simp add: ode_def py_sqrt_def py_truediv_def not_less)
  from neg zero nonneg show ?thesis
    by auto
qed

theorem ode_negative_level_witness:
  "(- 1 :: real) < 0 \<and> ode \<lparr>backet = \<lparr>A = 5\<rparr>, flow_in = (\<lambda>t. 10)\<rparr> 3 (- 1) = Inl ValueError
   \<and> ode \<lparr>backet = \<lparr>A = 5\<rparr>, flow_in = (\<lambda>t. 10)\<rparr> 3 (- 1)
       \<noteq> ode \<lparr>backet = \<lparr>A = 5\<rparr>, flow_in = (\<lambda>t. 10)\<rparr> 3 0"
  using ode_negative_level [of "- 1" "\<lparr>backet = \<lparr>A = 5\<rparr>, flow_in = (\<lambda>t. 10)\<rparr>" 3]
  by auto

text \<open>
  C6. \<open>ode\<close> reads nothing but \<open>t\<close>, \<open>h\<close>, the area and the value of the control input
  at \<open>t\<close>: two systems, whatever further fields they carry, that agree on the area and
  on the inflow at \<open>t\<close> give the same result at the same \<open>(t, h)\<close>, the same error
  included. In particular two evaluations on one system agree.
\<close>

theorem ode_deterministic:
  assumes "A (backet s1) = A (backet s2)" and "flow_in s1 t = flow_in s2 t"
  shows "ode s1 t h = ode s2 t h"
  unfolding ode_def assms by (rule refl)

theorem ode_deterministic_witness:
  "A (backet \<lparr>backet = \<lparr>A = 5\<rparr>, flow_in = (\<lambda>t. 10)\<rparr>)
     = A (backet \<lparr>backet = \<lparr>A = 5\<rparr>, flow_in = (\<lambda>t. if t = 3 then 10 else 0), \<dots> = True\<rparr>)
   \<and> flow_in \<lparr>backet = \<lparr>A = 5\<rparr>, flow_in = (\<lambda>t. 10)\<rparr> 3
     = flow_in \<lparr>backet = \<lparr>A = 5\<rparr>, flow_in = (\<lambda>t. if t = 3 then 10 else 0), \<dots> = True\<rparr> 3
   \<and> ode \<lparr>backet = \<lparr>A = 5\<rparr>, flow_in = (\<lambda>t. 10)\<rparr> 3 (10 / 49)
     = ode \<lparr>backet = \<lparr>A = 5\<rparr>, flow_in = (\<lambda>t. if t = 3 then 10 else 0), \<dots> = True\<rparr> 3 (10 / 49)"
  using ode_deterministic [of "\<lparr>backet = \<lparr>A = 5\<rparr>, flow_in = (\<lambda>t. 10)\<rparr>"
      "\<lparr>backet = \<lparr>A = 5\<rparr>, flow_in = (\<lambda>t. if t = 3 then 10 else 0), \<dots> = True\<rparr>" 3 "10 / 49"]
  by simp

text \<open>
  C7. For every constant inflow \<open>q0 > 0\<close>, area \<open>A > 0\<close> and time \<open>t\<close>, \<open>ode\<close> returns
  \<open>0\<close> at the equilibrium level \<open>h_eq = q0\<^sup>2 / (2g)\<close>.
\<close>

theorem ode_equilibrium:
  assumes "0 < q0" and "0 < a"
  shows "ode \<lparr>backet = \<lparr>A = a\<rparr>, flow_in = (\<lambda>t. q0)\<rparr> t (h_eq q0) = Inr 0"
proof -
  have level: "0 \<le> h_eq q0"
    by (simp add: h_eq_def g_ref_def)
  have "2 * GRAV * h_eq q0 = q0\<^sup>2"
    by (simp add: h_eq_def g_ref_def GRAV_def)
  then have "sqrt (2 * GRAV * h_eq q0) = q0"
    using assms(1) by simp
  with level assms(2) show ?thesis
    by (simp add: ode_value)
qed

theorem ode_equilibrium_witness:
  "(0::real) < 10 \<and> (0::real) < 5
   \<and> ode \<lparr>backet = \<lparr>A = 5\<rparr>, flow_in = (\<lambda>t. 10)\<rparr> 20 (h_eq 10) = Inr 0
   \<and> h_eq 10 = 250 / 49"
proof -
  have "h_eq 10 = 250 / 49"
    by (simp add: h_eq_def g_ref_def)
  then show ?thesis
    using ode_equilibrium [of 10 5 20] by simp
qed

text \<open>
  C9. For every time, area \<open>A > 0\<close> and control input, \<open>ode(t, \<cdot>)\<close> is strictly
  decreasing on the levels \<open>h \<ge> 0\<close>: for \<open>0 \<le> h1 < h2\<close> both evaluations return a
  value and the one at \<open>h2\<close> is the smaller.
\<close>

theorem ode_strictly_decreasing:
  assumes "0 \<le> h1" and "h1 < h2" and "0 < A (backet self)"
  shows "\<exists>d1 d2. ode self t h1 = Inr d1 \<and> ode self t h2 = Inr d2 \<and> d2 < d1"
proof -
  from assms GRAV_pos have "sqrt (2 * GRAV * h1) < sqrt (2 * GRAV * h2)"
    by simp
  then have "(flow_in self t - sqrt (2 * GRAV * h2)) / A (backet self)
      < (flow_in self t - sqrt (2 * GRAV * h1)) / A (backet self)"
    using assms(3) by (simp add: divide_strict_right_mono)
  moreover from assms have "ode self t h1 = Inr ((flow_in self t - sqrt (2 * GRAV * h1)) / A (backet self))"
    by (simp add: ode_value)
  moreover from assms have "ode self t h2 = Inr ((flow_in self t - sqrt (2 * GRAV * h2)) / A (backet self))"
    by (simp add: ode_value)
  ultimately show ?thesis
    by simp
qed

theorem ode_strictly_decreasing_witness:
  "(0::real) \<le> 5 / 98 \<and> (5::real) / 98 < 10 / 49
   \<and> 0 < A (backet \<lparr>backet = \<lparr>A = 5\<rparr>, flow_in = (\<lambda>t. 10)\<rparr>)
   \<and> (\<exists>d1 d2. ode \<lparr>backet = \<lparr>A = 5\<rparr>, flow_in = (\<lambda>t. 10)\<rparr> 3 (5 / 98) = Inr d1
        \<and> ode \<lparr>backet = \<lparr>A = 5\<rparr>, flow_in = (\<lambda>t. 10)\<rparr> 3 (10 / 49) = Inr d2 \<and> d2 < d1)"
  using ode_strictly_decreasing
    [of "5 / 98" "10 / 49" "\<lparr>backet = \<lparr>A = 5\<rparr>, flow_in = (\<lambda>t. 10)\<rparr>" 3]
  by simp

text \<open>
  C10. At the empty tank, for every time, area \<open>A > 0\<close> and control input, the outflow
  term is \<open>0\<close> and \<open>ode(t, 0)\<close> returns \<open>Q_in(t) / A\<close>, which is not negative when the
  inflow is not negative.
\<close>

theorem ode_empty_tank:
  assumes "0 < A (backet self)"
  shows "py_sqrt (2 * GRAV * 0) = Inr 0
     \<and> ode self t 0 = Inr (flow_in self t / A (backet self))
     \<and> (0 \<le> flow_in self t \<longrightarrow> 0 \<le> flow_in self t / A (backet self))"
  using assms by (simp add: ode_def py_sqrt_def py_truediv_def)

theorem ode_empty_tank_witness:
  "0 < A (backet \<lparr>backet = \<lparr>A = 5\<rparr>, flow_in = (\<lambda>t. 10)\<rparr>)
   \<and> ode \<lparr>backet = \<lparr>A = 5\<rparr>, flow_in = (\<lambda>t. 10)\<rparr> 0 0 = Inr 2
   \<and> (0::real) \<le> 10 \<and> (0::real) \<le> 10 / 5"
  using ode_empty_tank [of "\<lparr>backet = \<lparr>A = 5\<rparr>, flow_in = (\<lambda>t. 10)\<rparr>" 0]
  by simp

section \<open>Properties of construction and of the driver\<close>

lemma run_simulation_unfold:
  "run_simulation solve_ivp =
     solve_ivp (\<lambda>t h. case h of [] \<Rightarrow> Inl IndexError
                     | x # _ \<Rightarrow> ode \<lparr>backet = \<lparr>A = 5\<rparr>, flow_in = (\<lambda>t. 10)\<rparr> t x)
       (0, 20) [0] (1 / 100)"
  by (simp add: run_simulation_def Bucket_init_def)

text \<open>
  C2, as the specification states it: constructing a Bucket with an area \<open>A \<le> 0\<close>
  signals a \<open>ConfigurationError\<close>. The constructor returns a Bucket for \<open>A = 0\<close> and
  for \<open>A = -1\<close>.
\<close>

theorem Bucket_init_nonpositive_counterexample:
  "Bucket_init 0 = Inr \<lparr>A = 0\<rparr> \<and> Bucket_init 0 \<noteq> Inl ConfigurationError
   \<and> Bucket_init (- 1) = Inr \<lparr>A = - 1\<rparr> \<and> Bucket_init (- 1) \<noteq> Inl ConfigurationError"
  by (simp add: Bucket_init_def)

text \<open>
  C2, amended. Constructing a Bucket signals no error: for every area, also \<open>A \<le> 0\<close>,
  the constructor returns a Bucket that stores it. The area is looked at only when
  \<open>ode\<close> divides by it: at a level \<open>h \<ge> 0\<close> an area of \<open>0\<close> raises
  \<open>ZeroDivisionError\<close> and every other area, a negative one too, gives a value.
\<close>

theorem Bucket_init_accepts_every_area:
  "Bucket_init a = Inr \<lparr>A = a\<rparr>
   \<and> (\<forall>q_in t h. 0 \<le> h \<longrightarrow>
         ode \<lparr>backet = \<lparr>A = a\<rparr>, flow_in = q_in\<rparr> t h =
           (if a = 0 then Inl ZeroDivisionError
            else Inr ((q_in t - sqrt (2 * GRAV * h)) / a)))"
proof -
  have "ode \<lparr>backet = \<lparr>A = a\<rparr>, flow_in = q_in\<rparr> t h =
      (if a = 0 then Inl ZeroDivisionError else Inr ((q_in t - sqrt (2 * GRAV * h)) / a))"
    if "0 \<le> h" for q_in t h
  proof (cases "a = 0")
    case True
    with that show ?thesis
      by (simp add: ode_zero_area)
  next
    case False
    with that show ?thesis
      by (simp add: ode_value)
  qed
  then show ?thesis
    by (simp add: Bucket_init_def)
qed

theorem Bucket_init_accepts_every_area_witness:
  "Bucket_init 0 = Inr \<lparr>A = 0\<rparr> \<and> (0::real) \<le> 0
   \<and> ode \<lparr>backet = \<lparr>A = 0\<rparr>, flow_in = (\<lambda>t. 10)\<rparr> 0 0 = Inl ZeroDivisionError"
  using Bucket_init_accepts_every_area [of 0] by simp

text \<open>
  C4, as the specification states it: \<open>run_simulation\<close> called with a time span
  \<open>(5, 5)\<close> or \<open>(10, 2)\<close> signals a \<open>ConfigurationError\<close>. The function has no
  parameter to receive a time span; the call raises \<open>TypeError\<close>.
\<close>

theorem run_simulation_call_counterexample:
  "run_simulation_call [] [(''time_span'', [5, 5 :: real])] solver_gives_up = Inl TypeError
   \<and> run_simulation_call [] [(''time_span'', [5, 5 :: real])] solver_gives_up
        \<noteq> Inl ConfigurationError
   \<and> run_simulation_call [] [(''time_span'', [10, 2 :: real])] solver_gives_up
        \<noteq> Inl ConfigurationError"
  by (simp add: run_simulation_call_def)

text \<open>
  C4, amended. \<open>run_simulation\<close> takes no configuration: a call with any argument,
  valid or not, raises \<open>TypeError\<close> before the body runs. Called without arguments it
  always submits to the solver the time span \<open>(0, 20)\<close>, the initial state \<open>[0.0]\<close>
  and \<open>max_step = 0.01\<close>, which satisfy \<open>t_start < t_end\<close>, \<open>h0 \<ge> 0\<close> and
  \<open>max_step > 0\<close>; it checks nothing itself, and its outcome is the outcome of that
  solver call.
\<close>

theorem run_simulation_fixed_configuration:
  "(args \<noteq> [] \<or> kwargs \<noteq> [] \<longrightarrow> run_simulation_call args kwargs solve_ivp = Inl TypeError)
   \<and> (args = [] \<and> kwargs = [] \<longrightarrow>
        run_simulation_call args kwargs solve_ivp =
          solve_ivp (\<lambda>t h. case h of [] \<Rightarrow> Inl IndexError
                          | x # _ \<Rightarrow> ode \<lparr>backet = \<lparr>A = 5\<rparr>, flow_in = (\<lambda>t. 10)\<rparr> t x)
            (0, 20) [0] (1 / 100))
   \<and> run_simulation solve_ivp =
        solve_ivp (\<lambda>t h. case h of [] \<Rightarrow> Inl IndexError
                        | x # _ \<Rightarrow> ode \<lparr>backet = \<lparr>A = 5\<rparr>, flow_in = (\<lambda>t. 10)\<rparr> t x)
          (0, 20) [0] (1 / 100)
   \<and> (0::pyfloat) < 20 \<and> (0::pyfloat) \<le> 0 \<and> (0::pyfloat) < 1 / 100"
proof -
  have call: "args \<noteq> [] \<or> kwargs \<noteq> [] \<longrightarrow> run_simulation_call args kwargs solve_ivp = Inl TypeError"
    by (auto simp add: run_simulation_call_def)
  have plain: "args = [] \<and> kwargs = [] \<longrightarrow>
      run_simulation_call args kwargs solve_ivp =
        solve_ivp (\<lambda>t h. case h of [] \<Rightarrow> Inl IndexError
                        | x # _ \<Rightarrow> ode \<lparr>backet = \<lparr>A = 5\<rparr>, flow_in = (\<lambda>t. 10)\<rparr> t x)
          (0, 20) [0] (1 / 100)"
    by (simp add: run_simulation_call_def run_simulation_unfold)
  have fixed: "run_simulation solve_ivp =
      solve_ivp (\<lambda>t h. case h of [] \<Rightarrow> Inl IndexError
                      | x # _ \<Rightarrow> ode \<lparr>backet = \<lparr>A = 5\<rparr>, flow_in = (\<lambda>t. 10)\<rparr> t x)
        (0, 20) [0] (1 / 100)"
    by (rule run_simulation_unfold)
  from call plain fixed show ?thesis
    by simp
qed

theorem run_simulation_fixed_configuration_witness:
  "[(''max_step'', 0 :: real)] \<noteq> []
   \<and> run_simulation_call [] [(''max_step'', 0 :: real)] solver_gives_up = Inl TypeError
   \<and> run_simulation_call ([] :: real list) [] solver_gives_up =
       Inr \<lparr>message = ''Required step size is less than spacing between numbers.'',
            success = False, status = - 1, res_t = [0], res_y = [[0]],
            nfev = 0, njev = 0, nlu = 0\<rparr>"
  using run_simulation_fixed_configuration [of "[]" "[(''max_step'', 0 :: real)]" solver_gives_up]
    run_simulation_fixed_configuration [of "[] :: real list" "[]" solver_gives_up]
  by (simp add: solver_gives_up_def)

text \<open>
  C5. Whatever the solver, \<open>run_simulation\<close> calls it once with the baseline scenario:
  the derivative function is \<open>ode\<close> of the system with area \<open>5.0\<close> and constant
  inflow \<open>10.0\<close>, applied to the first component of the state; the time span is
  \<open>(0, 20)\<close>, the initial state \<open>[0.0]\<close> and \<open>max_step\<close> is \<open>0.01\<close>.
\<close>

theorem run_simulation_baseline:
  "run_simulation solve_ivp =
     solve_ivp (\<lambda>t h. case h of [] \<Rightarrow> Inl IndexError
                     | x # _ \<Rightarrow> ode \<lparr>backet = \<lparr>A = 5\<rparr>, flow_in = (\<lambda>t. 10)\<rparr> t x)
       (0, 20) [0] (1 / 100)"
  by (simp add: run_simulation_def Bucket_init_def)

text \<open>
  C8, as the specification states it: a failure of the derivative function at a level
  below zero comes back inside the returned result and is not raised. With a solver
  that evaluates the derivative function at \<open>h = -1\<close> and has no handler,
  \<open>run_simulation\<close> raises the error of \<open>math.sqrt\<close>.
\<close>

theorem run_simulation_raises_counterexample:
  "run_simulation solver_probes_below_zero = Inl ValueError"
  using GRAV_pos
  by (simp add: run_simulation_unfold solver_probes_below_zero_def ode_def py_sqrt_def)

text \<open>
  C8, amended. \<open>run_simulation\<close> returns the outcome of the solver call unchanged: a
  result that the solver returns, with whatever \<open>success\<close> flag and \<open>status\<close> it
  reports, is the result of \<open>run_simulation\<close>, and an exception that leaves the solver
  call, such as one of the derivative function that the solver does not catch, leaves
  \<open>run_simulation\<close> too.
\<close>

theorem run_simulation_passes_outcome_through:
  "(run_simulation solve_ivp = Inr r \<longleftrightarrow>
      solve_ivp (\<lambda>t h. case h of [] \<Rightarrow> Inl IndexError
                     | x # _ \<Rightarrow> ode \<lparr>backet = \<lparr>A = 5\<rparr>, flow_in = (\<lambda>t. 10)\<rparr> t x)
        (0, 20) [0] (1 / 100) = Inr r)
   \<and> (run_simulation solve_ivp = Inl e \<longleftrightarrow>
      solve_ivp (\<lambda>t h. case h of [] \<Rightarrow> Inl IndexError
                     | x # _ \<Rightarrow> ode \<lparr>backet = \<lparr>A = 5\<rparr>, flow_in = (\<lambda>t. 10)\<rparr> t x)
        (0, 20) [0] (1 / 100) = Inl e)"
  by (simp add: run_simulation_unfold)

theorem run_simulation_passes_outcome_through_witness:
  "run_simulation solver_gives_up =
     Inr \<lparr>message = ''Required step size is less than spacing between numbers.'',
          success = False, status = - 1, res_t = [0], res_y = [[0]],
          nfev = 0, njev = 0, nlu = 0\<rparr>
   \<and> run_simulation solver_probes_below_zero = Inl ValueError"
  using run_simulation_passes_outcome_through [of solver_gives_up
      "\<lparr>message = ''Required step size is less than spacing between numbers.'',
        success = False, status = - 1, res_t = [0], res_y = [[0]],
        nfev = 0, njev = 0, nlu = 0\<rparr>"]
    run_simulation_passes_outcome_through [of solver_probes_below_zero _ ValueError]
    GRAV_pos
  by (simp add: solver_gives_up_def solver_probes_below_zero_def ode_def py_sqrt_def)

end
